theory Spec2Isabelle
  imports Main "HOL-Library.Word"
begin

unbundle bit_operations_syntax

section \<open>Values shared by all modules\<close>

text \<open>
  Python exceptions are values.  Only the exception classes that the modelled code can
  meet are listed; each carries the text that \<^verbatim>\<open>str(e)\<close> yields, because the
  handlers of the bastion interpolate it into their log lines.
\<close>

datatype exn =
    ValueError string
  | AttributeError string
  | NotImplementedError string
  | OperationalError string
  | SocketError string

fun str_exn :: "exn \<Rightarrow> string" where
  "str_exn (ValueError m) = m"
| "str_exn (AttributeError m) = m"
| "str_exn (NotImplementedError m) = m"
| "str_exn (OperationalError m) = m"
| "str_exn (SocketError m) = m"

type_synonym byte = "8 word"
type_synonym w32 = "32 word"

text \<open>The \<^verbatim>\<open>logging\<close> module: a logger appends (level, message) lines.\<close>

datatype level = DEBUG | INFO | WARNING | ERROR

type_synonym logline = "level \<times> string"

section \<open>hashlib.sha256 (FIPS 180-4)\<close>

definition rotr :: "nat \<Rightarrow> w32 \<Rightarrow> w32" where
  "rotr n x = drop_bit n x OR push_bit (32 - n) x"

definition Ch :: "w32 \<Rightarrow> w32 \<Rightarrow> w32 \<Rightarrow> w32" where
  "Ch x y z = (x AND y) XOR (NOT x AND z)"

definition Maj :: "w32 \<Rightarrow> w32 \<Rightarrow> w32 \<Rightarrow> w32" where
  "Maj x y z = (x AND y) XOR (x AND z) XOR (y AND z)"

definition bsig0 :: "w32 \<Rightarrow> w32" where
  "bsig0 x = rotr 2 x XOR rotr 13 x XOR rotr 22 x"

definition bsig1 :: "w32 \<Rightarrow> w32" where
  "bsig1 x = rotr 6 x XOR rotr 11 x XOR rotr 25 x"

definition ssig0 :: "w32 \<Rightarrow> w32" where
  "ssig0 x = rotr 7 x XOR rotr 18 x XOR drop_bit 3 x"

definition ssig1 :: "w32 \<Rightarrow> w32" where
  "ssig1 x = rotr 17 x XOR rotr 19 x XOR drop_bit 10 x"

text \<open>The round constants and the initial hash value of the standard, in decimal.\<close>

definition sha256_K :: "w32 list" where
  "sha256_K = [
   1116352408, 1899447441, 3049323471, 3921009573, 961987163, 1508970993, 2453635748, 2870763221,
   3624381080, 310598401, 607225278, 1426881987, 1925078388, 2162078206, 2614888103, 3248222580,
   3835390401, 4022224774, 264347078, 604807628, 770255983, 1249150122, 1555081692, 1996064986,
   2554220882, 2821834349, 2952996808, 3210313671, 3336571891, 3584528711, 113926993, 338241895,
   666307205, 773529912, 1294757372, 1396182291, 1695183700, 1986661051, 2177026350, 2456956037,
   2730485921, 2820302411, 3259730800, 3345764771, 3516065817, 3600352804, 4094571909, 275423344,
   430227734, 506948616, 659060556, 883997877, 958139571, 1322822218, 1537002063, 1747873779,
   1955562222, 2024104815, 2227730452, 2361852424, 2428436474, 2756734187, 3204031479, 3329325298]"

definition sha256_H0 :: "w32 list" where
  "sha256_H0 = [1779033703, 3144134277, 1013904242, 2773480762,
                1359893119, 2600822924, 528734635, 1541459225]"

text \<open>Big-endian encoding of a natural number on \<open>n\<close> bytes (the length field).\<close>

fun be_bytes :: "nat \<Rightarrow> nat \<Rightarrow> byte list" where
  "be_bytes 0 v = []"
| "be_bytes (Suc n) v = be_bytes n (v div 256) @ [of_nat (v mod 256)]"

definition sha256_pad :: "byte list \<Rightarrow> byte list" where
  "sha256_pad m =
     (let l = length m; k = (119 - l mod 64) mod 64
      in m @ [128] @ replicate k 0 @ be_bytes 8 (8 * l))"

fun be_words :: "byte list \<Rightarrow> w32 list" where
  "be_words (a # b # c # d # rest) =
     ((push_bit 24 (ucast a) OR push_bit 16 (ucast b) OR push_bit 8 (ucast c) OR ucast d) :: w32)
       # be_words rest"
| "be_words _ = []"

text \<open>The message schedule is kept newest first: the head of the list is W[t-1].\<close>

fun schedule :: "nat \<Rightarrow> w32 list \<Rightarrow> w32 list" where
  "schedule 0 ws = ws"
| "schedule (Suc n) ws =
     schedule n ((ssig1 (ws ! 1) + ws ! 6 + ssig0 (ws ! 14) + ws ! 15) # ws)"

fun sha256_round :: "w32 list \<Rightarrow> w32 \<times> w32 \<Rightarrow> w32 list" where
  "sha256_round [a, b, c, d, e, f, g, h] (k, w) =
     (let t1 = h + bsig1 e + Ch e f g + k + w;
          t2 = bsig0 a + Maj a b c
      in [t1 + t2, a, b, c, d + t1, e, f, g])"
| "sha256_round s _ = s"

definition sha256_block :: "w32 list \<Rightarrow> w32 list \<Rightarrow> w32 list" where
  "sha256_block hs blk =
     (let ws = rev (schedule 48 (rev blk))
      in map2 (+) hs (foldl sha256_round hs (zip sha256_K ws)))"

fun sha256_blocks :: "nat \<Rightarrow> w32 list \<Rightarrow> w32 list \<Rightarrow> w32 list" where
  "sha256_blocks 0 hs ws = hs"
| "sha256_blocks (Suc n) hs ws = sha256_blocks n (sha256_block hs (take 16 ws)) (drop 16 ws)"

definition word_bytes :: "w32 \<Rightarrow> byte list" where
  "word_bytes w = [ucast (drop_bit 24 w), ucast (drop_bit 16 w), ucast (drop_bit 8 w), ucast w]"

definition sha256 :: "byte list \<Rightarrow> byte list" where
  "sha256 m =
     (let p = sha256_pad m
      in concat (map word_bytes (sha256_blocks (length p div 64) sha256_H0 (be_words p))))"

section \<open>base64.b64encode and str.rstrip\<close>

definition b64_alphabet :: string where
  "b64_alphabet = ''ABCDEFGHIJKLMNOPQRSTUVWXYZabcdefghijklmnopqrstuvwxyz0123456789+/''"

definition b64_char :: "nat \<Rightarrow> char" where
  "b64_char i = b64_alphabet ! (i mod 64)"

text \<open>
  \<^verbatim>\<open>base64.b64encode\<close>: three bytes give four characters; a final group of one or two
  bytes is filled with zero bits and padded with \<^verbatim>\<open>=\<close> to four characters.
\<close>

fun b64encode :: "byte list \<Rightarrow> string" where
  "b64encode [] = []"
| "b64encode [a] =
     (let n = unat a * 65536
      in [b64_char (n div 262144), b64_char (n div 4096), CHR ''='', CHR ''=''])"
| "b64encode [a, b] =
     (let n = unat a * 65536 + unat b * 256
      in [b64_char (n div 262144), b64_char (n div 4096), b64_char (n div 64), CHR ''=''])"
| "b64encode (a # b # c # rest) =
     (let n = unat a * 65536 + unat b * 256 + unat c
      in [b64_char (n div 262144), b64_char (n div 4096), b64_char (n div 64), b64_char n]
           @ b64encode rest)"

text \<open>\<^verbatim>\<open>s.rstrip(c)\<close> for a single character: drop every trailing occurrence.\<close>

definition rstrip :: "char \<Rightarrow> string \<Rightarrow> string" where
  "rstrip c s = rev (dropWhile (\<lambda>x. x = c) (rev s))"

text \<open>
  The specification's words: the unpadded base64 encoding emits only the characters that
  carry data bits, two for a final group of one byte and three for a final group of two
  bytes (RFC 4648, section 3.2), and the fingerprint is the prefix followed by that
  encoding of the digest.
\<close>

fun base64_unpadded :: "byte list \<Rightarrow> string" where
  "base64_unpadded [] = []"
| "base64_unpadded [a] =
     (let n = unat a * 65536 in [b64_char (n div 262144), b64_char (n div 4096)])"
| "base64_unpadded [a, b] =
     (let n = unat a * 65536 + unat b * 256
      in [b64_char (n div 262144), b64_char (n div 4096), b64_char (n div 64)])"
| "base64_unpadded (a # b # c # rest) =
     (let n = unat a * 65536 + unat b * 256 + unat c
      in [b64_char (n div 262144), b64_char (n div 4096), b64_char (n div 64), b64_char n]
           @ base64_unpadded rest)"

definition spec_fingerprint :: "byte list \<Rightarrow> string" where
  "spec_fingerprint blob = ''SHA256:'' @ base64_unpadded (sha256 blob)"

section \<open>models.py\<close>

record SSHKey =
  key_id :: "int option"
  fingerprint :: string
  username :: string
  target_host :: string
  target_port :: int
  target_user :: string
  enabled :: bool

record Target =
  host :: string
  port :: int
  user :: string

record ConnectionEvent =
  ev_fingerprint :: string
  ev_source_ip :: string
  ev_target_host :: string
  ev_target_user :: string
  ev_username :: string
  ev_status :: string
  ev_timestamp :: "string option"
  ev_error_message :: "string option"

text \<open>The constructors run \<^verbatim>\<open>__post_init__\<close>, which raises on invalid fields.\<close>

definition SSHKey_init ::
  "int option \<Rightarrow> string \<Rightarrow> string \<Rightarrow> string \<Rightarrow> int \<Rightarrow> string \<Rightarrow> bool \<Rightarrow> exn + SSHKey" where
  "SSHKey_init i fp un th tp tu en =
     (if fp = [] then Inl (ValueError ''Fingerprint is required'')
      else if th = [] then Inl (ValueError ''Target host is required'')
      else if tu = [] then Inl (ValueError ''Target user is required'')
      else if tp < 1 \<or> tp > 65535 then Inl (ValueError ''Invalid target port'')
      else Inr \<lparr>key_id = i, fingerprint = fp, username = un, target_host = th,
                target_port = tp, target_user = tu, enabled = en\<rparr>)"

definition Target_init :: "string \<Rightarrow> int \<Rightarrow> string \<Rightarrow> exn + Target" where
  "Target_init h p u =
     (if h = [] then Inl (ValueError ''Target host is required'')
      else if u = [] then Inl (ValueError ''Target user is required'')
      else if p < 1 \<or> p > 65535 then Inl (ValueError ''Invalid port'')
      else Inr \<lparr>host = h, port = p, user = u\<rparr>)"

section \<open>db.py and the process state\<close>

text \<open>
  A row of table \<^verbatim>\<open>ssh_keys\<close>.  Column \<^verbatim>\<open>enabled\<close> is an SQLite BOOLEAN, that
  is an integer; the query compares it with 1 and the code converts it with
  \<^verbatim>\<open>bool(...)\<close>.
\<close>

record ssh_keys_row =
  row_id :: int
  row_fingerprint :: string
  row_username :: string
  row_target_host :: string
  row_target_port :: int
  row_target_user :: string
  row_enabled :: int

text \<open>
  The database: its URL, its two tables, and the error (if any) that SQLite raises when
  the file is opened or queried.  The process state is the database together with the
  lines written to the loggers.
\<close>

record Database =
  db_url :: string
  sqlite_fault :: "exn option"
  ssh_keys :: "ssh_keys_row list"
  connection_logs :: "ConnectionEvent list"

record world =
  db :: Database
  logged :: "logline list"

definition log_msg :: "level \<Rightarrow> string \<Rightarrow> world \<Rightarrow> world" where
  "log_msg l m w = w\<lparr>logged := logged w @ [(l, m)]\<rparr>"

definition startswith :: "string \<Rightarrow> string \<Rightarrow> bool" where
  "startswith s p = (take (length p) s = p)"

definition get_connection :: "Database \<Rightarrow> exn + unit" where
  "get_connection d =
     (if startswith (db_url d) ''sqlite'' then
        (case sqlite_fault d of Some e \<Rightarrow> Inl e | None \<Rightarrow> Inr ())
      else Inl (NotImplementedError ''PostgreSQL support not yet implemented''))"

definition find_ssh_key :: "string \<Rightarrow> world \<Rightarrow> SSHKey option \<times> world" where
  "find_ssh_key fp w =
     (case get_connection (db w) of
        Inl e \<Rightarrow> (None, log_msg ERROR (''Error finding SSH key: '' @ str_exn e) w)
      | Inr _ \<Rightarrow>
          (case filter (\<lambda>r. row_fingerprint r = fp \<and> row_enabled r = 1) (ssh_keys (db w)) of
             [] \<Rightarrow> (None, w)
           | r # _ \<Rightarrow>
               (case SSHKey_init (Some (row_id r)) (row_fingerprint r) (row_username r)
                       (row_target_host r) (row_target_port r) (row_target_user r)
                       (row_enabled r \<noteq> 0) of
                  Inl e \<Rightarrow> (None, log_msg ERROR (''Error finding SSH key: '' @ str_exn e) w)
                | Inr k \<Rightarrow> (Some k, w))))"

definition log_connection_event :: "ConnectionEvent \<Rightarrow> world \<Rightarrow> bool \<times> world" where
  "log_connection_event ev w =
     (case get_connection (db w) of
        Inl e \<Rightarrow> (False, log_msg ERROR (''Error logging connection event: '' @ str_exn e) w)
      | Inr _ \<Rightarrow>
          (True, w\<lparr>db := (db w)\<lparr>connection_logs := connection_logs (db w) @ [ev]\<rparr>\<rparr>))"

section \<open>logging.py\<close>

definition log_connection_attempt :: "string \<Rightarrow> string \<Rightarrow> string \<Rightarrow> world \<Rightarrow> world" where
  "log_connection_attempt source_ip fp un =
     log_msg INFO (''Connection attempt - IP: '' @ source_ip @ '', Fingerprint: '' @ take 16 fp
                   @ ''..., User: '' @ un)"

definition log_connection_success ::
  "string \<Rightarrow> string \<Rightarrow> string \<Rightarrow> string \<Rightarrow> world \<Rightarrow> world" where
  "log_connection_success source_ip fp un th =
     log_msg INFO (''Connection SUCCESS - IP: '' @ source_ip @ '', Fingerprint: '' @ take 16 fp
                   @ ''..., User: '' @ un @ '', Target: '' @ th)"

definition log_connection_denied ::
  "string \<Rightarrow> string \<Rightarrow> string \<Rightarrow> string \<Rightarrow> world \<Rightarrow> world" where
  "log_connection_denied source_ip fp un reason =
     log_msg WARNING (''Connection DENIED - IP: '' @ source_ip @ '', Fingerprint: '' @ take 16 fp
                      @ ''..., User: '' @ un @ '', Reason: '' @ reason)"

definition log_connection_closed :: "string \<Rightarrow> string \<Rightarrow> string \<Rightarrow> logline" where
  "log_connection_closed source_ip fp th =
     (INFO, ''Connection CLOSED - IP: '' @ source_ip @ '', Fingerprint: '' @ take 16 fp
            @ ''..., Target: '' @ th)"

section \<open>auth.py\<close>

text \<open>
  A presented key is what \<^verbatim>\<open>public_key.asbytes()\<close> yields: the raw key blob, or an
  exception.
\<close>

datatype PKey = PKey "exn + byte list"

fun asbytes :: "PKey \<Rightarrow> exn + byte list" where
  "asbytes (PKey r) = r"

definition get_key_fingerprint :: "PKey \<Rightarrow> world \<Rightarrow> string \<times> world" where
  "get_key_fingerprint public_key w =
     (case asbytes public_key of
        Inl e \<Rightarrow> ([], log_msg ERROR (''Error calculating key fingerprint: '' @ str_exn e) w)
      | Inr key_bytes \<Rightarrow>
          (''SHA256:'' @ rstrip CHR ''='' (b64encode (sha256 key_bytes)), w))"

text \<open>
  \<^verbatim>\<open>authenticate_key\<close>.  The catalog lookup \<open>finder\<close> is the method
  \<^verbatim>\<open>self.database.find_ssh_key\<close>; it is a parameter that may raise, so that the
  \<^verbatim>\<open>except Exception\<close> handler of the source is a branch of the model.
  \<open>authenticate_key_try\<close> is the body of the \<^verbatim>\<open>try\<close> block, \<open>authenticate_key_with\<close>
  adds the handler, and \<open>authenticate_key\<close> is the method on the real database.
\<close>

type_synonym lookup = "string \<Rightarrow> world \<Rightarrow> (exn + SSHKey option) \<times> world"

definition authenticate_key_try ::
  "lookup \<Rightarrow> string \<Rightarrow> PKey \<Rightarrow> string \<Rightarrow> world
     \<Rightarrow> (exn + bool \<times> SSHKey option) \<times> string \<times> world" where
  "authenticate_key_try finder un public_key source_ip w =
     (let (fp, w1) = get_key_fingerprint public_key w
      in if fp = [] then
           (Inr (False, None), fp,
            log_connection_denied source_ip ''INVALID'' un
              ''Could not calculate key fingerprint'' w1)
         else
           (case finder fp (log_connection_attempt source_ip fp un w1) of
              (Inl e, w2) \<Rightarrow> (Inl e, fp, w2)
            | (Inr None, w2) \<Rightarrow>
                (Inr (False, None), fp,
                 log_connection_denied source_ip fp un ''SSH key not found in database'' w2)
            | (Inr (Some ssh_key), w2) \<Rightarrow>
                if \<not> enabled ssh_key then
                  (Inr (False, None), fp,
                   log_connection_denied source_ip fp un ''SSH key is disabled'' w2)
                else
                  (Inr (True, Some ssh_key), fp,
                   log_msg INFO (''Authentication SUCCESS for '' @ un @ '' from '' @ source_ip
                                 @ '' with fingerprint '' @ take 16 fp @ ''...'') w2)))"

definition authenticate_key_with ::
  "lookup \<Rightarrow> string \<Rightarrow> PKey \<Rightarrow> string \<Rightarrow> world \<Rightarrow> (bool \<times> SSHKey option) \<times> world" where
  "authenticate_key_with finder un public_key source_ip w =
     (case authenticate_key_try finder un public_key source_ip w of
        (Inr r, fp, w') \<Rightarrow> (r, w')
      | (Inl e, fp, w') \<Rightarrow>
          ((False, None),
           log_connection_denied source_ip (if fp = [] then ''UNKNOWN'' else fp) un
             (''Authentication error: '' @ str_exn e)
             (log_msg ERROR (''Authentication error: '' @ str_exn e) w')))"

definition Database_find_ssh_key :: lookup where
  "Database_find_ssh_key fp w = (case find_ssh_key fp w of (r, w') \<Rightarrow> (Inr r, w'))"

definition authenticate_key ::
  "string \<Rightarrow> PKey \<Rightarrow> string \<Rightarrow> world \<Rightarrow> (bool \<times> SSHKey option) \<times> world" where
  "authenticate_key = authenticate_key_with Database_find_ssh_key"

section \<open>The ipaddress module\<close>

text \<open>
  An address object is its version (4 or 6) and its integer value; a network object is
  its version, its network address and its netmask, both integers.  Membership is
  CPython's \<^verbatim>\<open>_BaseNetwork.__contains__\<close>: false across versions, otherwise
  \<^verbatim>\<open>other._ip & self.netmask._ip == self.network_address._ip\<close>.
\<close>

record ip_obj =
  ip_version :: nat
  ip_int :: int

record net_obj =
  net_version :: nat
  network_address :: int
  netmask :: int

definition net_contains :: "net_obj \<Rightarrow> ip_obj \<Rightarrow> bool" where
  "net_contains n a =
     (if net_version n \<noteq> ip_version a then False
      else ip_int a AND netmask n = network_address n)"

text \<open>
  The two parsers that the router calls, \<^verbatim>\<open>ipaddress.ip_address(s)\<close> and
  \<^verbatim>\<open>ipaddress.ip_network(s, strict=False)\<close>, are library code.  The router is
  modelled over any pair of parsers, so that its theorems hold for the whole syntax of
  the library (IPv4, IPv6, every prefix notation).
\<close>

record ipaddress =
  ip_address :: "string \<Rightarrow> exn + ip_obj"
  ip_network :: "string \<Rightarrow> exn + net_obj"

text \<open>
  One instance is written out, for concrete runs of the router: CPython's IPv4 parsers on
  dotted-quad addresses with an optional decimal prefix length.  An IPv6 literal or a
  prefix written as a netmask, which CPython accepts as well, is a \<open>ValueError\<close> in this
  instance; none occurs in the concrete runs below.
\<close>

fun split_on :: "char \<Rightarrow> string \<Rightarrow> string list" where
  "split_on c [] = [[]]"
| "split_on c (x # xs) =
     (if x = c then [] # split_on c xs
      else (case split_on c xs of p # ps \<Rightarrow> (x # p) # ps | [] \<Rightarrow> [[x]]))"

definition is_ascii_digit :: "char \<Rightarrow> bool" where
  "is_ascii_digit c = (c \<in> set ''0123456789'')"

definition int_of_decimal :: "string \<Rightarrow> int" where
  "int_of_decimal s = foldl (\<lambda>n c. 10 * n + (of_char c - 48)) 0 s"

definition parse_octet :: "string \<Rightarrow> exn + int" where
  "parse_octet s =
     (if s = [] then Inl (ValueError ''Empty octet not permitted'')
      else if \<not> list_all is_ascii_digit s then Inl (ValueError ''Only decimal digits permitted'')
      else if length s > 3 then Inl (ValueError ''At most 3 characters permitted'')
      else if s \<noteq> ''0'' \<and> hd s = CHR ''0'' then Inl (ValueError ''Leading zeros are not permitted'')
      else if int_of_decimal s > 255 then Inl (ValueError ''Octet > 255 not permitted'')
      else Inr (int_of_decimal s))"

definition IPv4Address :: "string \<Rightarrow> exn + int" where
  "IPv4Address s =
     (if CHR ''/'' \<in> set s then Inl (ValueError ''Unexpected slash'')
      else (case split_on CHR ''.'' s of
              [a, b, c, d] \<Rightarrow>
                (case (parse_octet a, parse_octet b, parse_octet c, parse_octet d) of
                   (Inr x, Inr y, Inr z, Inr t) \<Rightarrow> Inr (((x * 256 + y) * 256 + z) * 256 + t)
                 | _ \<Rightarrow> Inl (ValueError ''invalid octet''))
            | _ \<Rightarrow> Inl (ValueError ''Expected 4 octets'')))"

definition prefix_from_prefix_string :: "string \<Rightarrow> exn + nat" where
  "prefix_from_prefix_string s =
     (if s = [] \<or> \<not> list_all is_ascii_digit s then Inl (ValueError ''invalid netmask'')
      else if int_of_decimal s > 32 then Inl (ValueError ''invalid netmask'')
      else Inr (nat (int_of_decimal s)))"

definition IPv4Network :: "string \<Rightarrow> exn + net_obj" where
  "IPv4Network s =
     (case split_on CHR ''/'' s of
        [a] \<Rightarrow>
          (case IPv4Address a of
             Inl e \<Rightarrow> Inl e
           | Inr v \<Rightarrow> Inr \<lparr>net_version = 4, network_address = v, netmask = 2 ^ 32 - 1\<rparr>)
      | [a, p] \<Rightarrow>
          (case IPv4Address a of
             Inl e \<Rightarrow> Inl e
           | Inr v \<Rightarrow>
               (case prefix_from_prefix_string p of
                  Inl e \<Rightarrow> Inl e
                | Inr l \<Rightarrow>
                    (let m = 2 ^ 32 - 2 ^ (32 - l)
                     in Inr \<lparr>net_version = 4, network_address = v AND m, netmask = m\<rparr>)))
      | _ \<Rightarrow> Inl (ValueError ''Only one slash permitted''))"

definition repr_str :: "string \<Rightarrow> string" where
  "repr_str s = [CHR 39] @ s @ [CHR 39]"

definition ipaddress_v4 :: ipaddress where
  "ipaddress_v4 =
     \<lparr>ip_address = (\<lambda>s. case IPv4Address s of
                           Inl e \<Rightarrow> Inl (ValueError (repr_str s @ '' does not appear to be an IPv4 or IPv6 address''))
                         | Inr v \<Rightarrow> Inr \<lparr>ip_version = 4, ip_int = v\<rparr>),
      ip_network = (\<lambda>s. case IPv4Network s of
                           Inl e \<Rightarrow> Inl (ValueError (repr_str s @ '' does not appear to be an IPv4 or IPv6 network''))
                         | Inr n \<Rightarrow> Inr n)\<rparr>"

section \<open>router.py\<close>

text \<open>
  The loop of \<^verbatim>\<open>_validate_target\<close> over \<^verbatim>\<open>Config.RESTRICTED_NETWORKS\<close>.  Python
  evaluates the left operand of \<^verbatim>\<open>in\<close> first, so the host is parsed before the
  network, once per iteration, and either parser may raise.
\<close>

fun restricted_loop :: "ipaddress \<Rightarrow> Target \<Rightarrow> string list \<Rightarrow> world \<Rightarrow> (exn + bool) \<times> world" where
  "restricted_loop lib target [] w = (Inr True, w)"
| "restricted_loop lib target (h # hs) w =
     (case ip_address lib (host target) of
        Inl e \<Rightarrow> (Inl e, w)
      | Inr a \<Rightarrow>
          (case ip_network lib h of
             Inl e \<Rightarrow> (Inl e, w)
           | Inr n \<Rightarrow>
               if net_contains n a then
                 (Inr False,
                  log_msg ERROR (''Target host '' @ host target @ '' is in restricted network ''
                                 @ h @ ''!'') w)
               else restricted_loop lib target hs w))"

definition validate_target :: "ipaddress \<Rightarrow> string list \<Rightarrow> Target \<Rightarrow> world \<Rightarrow> bool \<times> world" where
  "validate_target lib restricted target w =
     (if host target = [] \<or> user target = [] then (False, w)
      else if port target < 1 \<or> port target > 65535 then (False, w)
      else (case restricted_loop lib target restricted w of
              (Inl e, w') \<Rightarrow> (False, log_msg ERROR (''Target validation error: '' @ str_exn e) w')
            | (Inr b, w') \<Rightarrow> (b, w')))"

text \<open>
  \<^verbatim>\<open>_log_connection_event\<close>: builds the ConnectionEvent and hands it to the database;
  reading \<^verbatim>\<open>ssh_key.fingerprint\<close> of \<^verbatim>\<open>None\<close> raises inside its own handler.
\<close>

definition router_log_connection_event ::
  "SSHKey option \<Rightarrow> string \<Rightarrow> string \<Rightarrow> Target option \<Rightarrow> string \<Rightarrow> string option
     \<Rightarrow> world \<Rightarrow> world" where
  "router_log_connection_event ssh_key un source_ip target status error_message w =
     (case ssh_key of
        None \<Rightarrow>
          log_msg ERROR (''Error logging connection event: '' @ repr_str ''NoneType''
                         @ '' object has no attribute '' @ repr_str ''fingerprint'') w
      | Some k \<Rightarrow>
          snd (log_connection_event
                 \<lparr>ev_fingerprint = fingerprint k, ev_source_ip = source_ip,
                  ev_target_host = (case target of Some t \<Rightarrow> host t | None \<Rightarrow> []),
                  ev_target_user = (case target of Some t \<Rightarrow> user t | None \<Rightarrow> []),
                  ev_username = un, ev_status = status, ev_timestamp = None,
                  ev_error_message = error_message\<rparr> w))"

function str_nat :: "nat \<Rightarrow> string" where
  "str_nat n =
     (if n < 10 then [char_of (48 + n)] else str_nat (n div 10) @ [char_of (48 + n mod 10)])"
  by pat_completeness auto
termination
  by (relation "measure id") auto

definition str_int :: "int \<Rightarrow> string" where
  "str_int i = (if i < 0 then CHR ''-'' # str_nat (nat (- i)) else str_nat (nat i))"

definition get_target ::
  "ipaddress \<Rightarrow> string list \<Rightarrow> SSHKey option \<Rightarrow> string \<Rightarrow> string \<Rightarrow> world
     \<Rightarrow> Target option \<times> world" where
  "get_target lib restricted ssh_key un source_ip w =
     (case ssh_key of
        None \<Rightarrow>
          (None, log_connection_denied source_ip ''UNKNOWN'' un
                   ''SSH key not valid or disabled'' w)
      | Some k \<Rightarrow>
          if \<not> enabled k then
            (None, log_connection_denied source_ip (fingerprint k) un
                     ''SSH key not valid or disabled'' w)
          else
            (case Target_init (target_host k) (target_port k) (target_user k) of
               Inl e \<Rightarrow>
                 (None,
                  router_log_connection_event (Some k) un source_ip None ''error''
                    (Some (str_exn e)) (log_msg ERROR (''Routing error: '' @ str_exn e) w))
             | Inr target \<Rightarrow>
                 (case validate_target lib restricted target w of
                    (False, w1) \<Rightarrow>
                      (None, log_connection_denied source_ip (fingerprint k) un
                               ''Invalid target configuration'' w1)
                  | (True, w1) \<Rightarrow>
                      (Some target,
                       log_msg INFO (''Routing SUCCESS: '' @ un @ ''@'' @ source_ip @ '' -> ''
                                     @ user target @ ''@'' @ host target @ '':''
                                     @ str_int (port target))
                         (router_log_connection_event (Some k) un source_ip (Some target)
                            ''success'' None
                            (log_connection_success source_ip (fingerprint k) un
                               (host target) w1))))))"

section \<open>proxy.py\<close>

subsection \<open>The registry and its teardown\<close>

text \<open>
  Channels and SSH clients are objects of paramiko; the model names each by a number.
  What their \<^verbatim>\<open>close()\<close> does is the environment's: \<open>close_raises\<close> tells which
  handles raise when closed.  The proxy records every call of \<^verbatim>\<open>close()\<close> in order
  (\<open>close_calls\<close>) and the handles whose \<^verbatim>\<open>close()\<close> returned (\<open>closed_handles\<close>).
\<close>

datatype handle = Channel nat | SSHClient nat

text \<open>
  The value stored under key \<^verbatim>\<open>'target'\<close> of a registry entry is a Python object.
  \<^verbatim>\<open>_cleanup_connection\<close> calls \<^verbatim>\<open>.get('host', 'unknown')\<close> on it: a dict answers,
  an instance of dataclass \<^verbatim>\<open>Target\<close> has no attribute \<^verbatim>\<open>get\<close>.
\<close>

datatype pyobj = TargetObj Target | DictObj "(string \<times> string) list"

fun py_get :: "pyobj \<Rightarrow> string \<Rightarrow> string \<Rightarrow> exn + string" where
  "py_get (DictObj d) k dflt = Inr (case map_of d k of Some v \<Rightarrow> v | None \<Rightarrow> dflt)"
| "py_get (TargetObj t) k dflt =
     Inl (AttributeError (repr_str ''Target'' @ '' object has no attribute '' @ repr_str ''get''))"

text \<open>
  A registry entry: the dict that \<^verbatim>\<open>setup_proxy_session\<close> stores, whose six keys are
  always present.
\<close>

record conn_info =
  ci_client_channel :: nat
  ci_target_ssh :: nat
  ci_target_channel :: nat
  ci_target :: pyobj
  ci_source_ip :: string
  ci_fingerprint :: string

record SSHProxy =
  active_connections :: "string \<rightharpoonup> conn_info"
  close_calls :: "handle list"
  closed_handles :: "handle list"
  proxy_log :: "logline list"

definition SSHProxy_init :: SSHProxy where
  "SSHProxy_init =
     \<lparr>active_connections = Map.empty, close_calls = [], closed_handles = [], proxy_log = []\<rparr>"

definition plog :: "level \<Rightarrow> string \<Rightarrow> SSHProxy \<Rightarrow> SSHProxy" where
  "plog l m p = p\<lparr>proxy_log := proxy_log p @ [(l, m)]\<rparr>"

definition connection_id :: "string \<Rightarrow> string \<Rightarrow> string" where
  "connection_id source_ip fp = source_ip @ '':'' @ take 8 fp"

text \<open>
  The block ``Store connection info for cleanup'' of \<^verbatim>\<open>setup_proxy_session\<close>: the only
  place that writes the registry.  It stores the \<^verbatim>\<open>Target\<close> instance itself.
\<close>

definition store_connection ::
  "nat \<Rightarrow> nat \<Rightarrow> nat \<Rightarrow> Target \<Rightarrow> string \<Rightarrow> string \<Rightarrow> SSHProxy \<Rightarrow> SSHProxy" where
  "store_connection client_channel target_ssh target_channel target source_ip fp p =
     p\<lparr>active_connections := (active_connections p)(connection_id source_ip fp \<mapsto>
          \<lparr>ci_client_channel = client_channel, ci_target_ssh = target_ssh,
           ci_target_channel = target_channel, ci_target = TargetObj target,
           ci_source_ip = source_ip, ci_fingerprint = fp\<rparr>)\<rparr>"

text \<open>One \<^verbatim>\<open>try: x.close() except: pass\<close> block.\<close>

definition close_handle :: "(handle \<Rightarrow> bool) \<Rightarrow> handle \<Rightarrow> SSHProxy \<Rightarrow> SSHProxy" where
  "close_handle close_raises h p =
     (if close_raises h then p\<lparr>close_calls := close_calls p @ [h]\<rparr>
      else p\<lparr>close_calls := close_calls p @ [h], closed_handles := closed_handles p @ [h]\<rparr>)"

definition cleanup_connection :: "(handle \<Rightarrow> bool) \<Rightarrow> string \<Rightarrow> SSHProxy \<Rightarrow> SSHProxy" where
  "cleanup_connection close_raises cid p =
     (case active_connections p cid of
        None \<Rightarrow> p
      | Some ci \<Rightarrow>
          (let p1 = close_handle close_raises (Channel (ci_client_channel ci)) p;
               p2 = close_handle close_raises (Channel (ci_target_channel ci)) p1;
               p3 = close_handle close_raises (SSHClient (ci_target_ssh ci)) p2
           in case py_get (ci_target ci) ''host'' ''unknown'' of
                Inl e \<Rightarrow>
                  plog ERROR (''Error cleaning up connection '' @ cid @ '': '' @ str_exn e) p3
              | Inr h \<Rightarrow>
                  plog INFO (''Connection '' @ cid @ '' cleaned up'')
                    ((p3\<lparr>proxy_log := proxy_log p3
                            @ [log_connection_closed (ci_source_ip ci) (ci_fingerprint ci) h]\<rparr>)
                       \<lparr>active_connections := (active_connections p3)(cid := None)\<rparr>)))"

text \<open>
  \<^verbatim>\<open>_monitor_connection\<close> polls the two relay threads once a second.  The list is what
  \<^verbatim>\<open>(thread1.is_alive(), thread2.is_alive())\<close> shows at the successive polls; the
  supervisor leaves the loop at the first poll where a worker has exited and then runs the
  teardown.  \<open>None\<close>: both workers were alive at every poll, the supervisor still waits.
\<close>

fun monitor_connection ::
  "(handle \<Rightarrow> bool) \<Rightarrow> string \<Rightarrow> (bool \<times> bool) list \<Rightarrow> SSHProxy \<Rightarrow> SSHProxy option" where
  "monitor_connection close_raises cid [] p = None"
| "monitor_connection close_raises cid ((alive1, alive2) # polls) p =
     (if alive1 \<and> alive2 then monitor_connection close_raises cid polls p
      else Some (cleanup_connection close_raises cid p))"

subsection \<open>One relay direction\<close>

text \<open>
  What the two channels do in one iteration of the loop of \<^verbatim>\<open>_relay_data\<close>:
  \<^item> \<open>ChannelClosed\<close>: \<^verbatim>\<open>source_channel.closed or dest_channel.closed\<close> holds;
  \<^item> \<open>SelectTimeout\<close>: \<^verbatim>\<open>select\<close> returns nothing ready after one second;
  \<^item> \<open>SelectRaises e\<close>: \<^verbatim>\<open>select\<close> raises;
  \<^item> \<open>RecvRaises e\<close>: \<^verbatim>\<open>recv(4096)\<close> raises;
  \<^item> \<open>Recv data k\<close>: \<^verbatim>\<open>recv(4096)\<close> returns \<open>data\<close> (empty at end of stream); if it is
    not empty, \<^verbatim>\<open>send(data)\<close> accepts its first \<open>k\<close> bytes and returns that count
    (paramiko's \<^verbatim>\<open>Channel.send\<close> may send fewer bytes than given, and 0 on a closed
    stream);
  \<^item> \<open>RecvSendRaises data e\<close>: \<^verbatim>\<open>recv\<close> returns \<open>data\<close> and \<^verbatim>\<open>send(data)\<close> raises.
\<close>

datatype relay_event =
    ChannelClosed
  | SelectTimeout
  | SelectRaises exn
  | RecvRaises exn
  | Recv "byte list" nat
  | RecvSendRaises "byte list" exn

datatype relay_exit = StillRunning | ExitClean | ExitError

record relay_state =
  bytes_read :: "byte list"
  bytes_delivered :: "byte list"
  relay_log :: "logline list"

definition relay_state_init :: relay_state where
  "relay_state_init = \<lparr>bytes_read = [], bytes_delivered = [], relay_log = []\<rparr>"

definition relay_terminated :: "string \<Rightarrow> relay_state \<Rightarrow> relay_state" where
  "relay_terminated relay_id s =
     s\<lparr>relay_log := relay_log s @ [(DEBUG, ''Relay '' @ relay_id @ '' terminated'')]\<rparr>"

fun relay_data :: "string \<Rightarrow> relay_event list \<Rightarrow> relay_state \<Rightarrow> relay_exit \<times> relay_state" where
  "relay_data relay_id [] s = (StillRunning, s)"
| "relay_data relay_id (ChannelClosed # evs) s = (ExitClean, relay_terminated relay_id s)"
| "relay_data relay_id (SelectTimeout # evs) s = relay_data relay_id evs s"
| "relay_data relay_id (SelectRaises e # evs) s =
     (ExitError,
      relay_terminated relay_id
        (s\<lparr>relay_log := relay_log s
              @ [(ERROR, ''Relay '' @ relay_id @ '' error: '' @ str_exn e)]\<rparr>))"
| "relay_data relay_id (RecvRaises e # evs) s =
     (ExitError,
      relay_terminated relay_id
        (s\<lparr>relay_log := relay_log s
              @ [(DEBUG, ''Relay '' @ relay_id @ '' data transfer error: '' @ str_exn e)]\<rparr>))"
| "relay_data relay_id (Recv data k # evs) s =
     (if data = [] then (ExitClean, relay_terminated relay_id s)
      else relay_data relay_id evs
             (s\<lparr>bytes_read := bytes_read s @ data,
                bytes_delivered := bytes_delivered s @ take k data\<rparr>))"
| "relay_data relay_id (RecvSendRaises data e # evs) s =
     (if data = [] then (ExitClean, relay_terminated relay_id s)
      else (ExitError,
            relay_terminated relay_id
              (s\<lparr>bytes_read := bytes_read s @ data,
                 relay_log := relay_log s
                   @ [(DEBUG, ''Relay '' @ relay_id @ '' data transfer error: '' @ str_exn e)]\<rparr>)))"

section \<open>Concrete inputs\<close>

text \<open>
  The inputs of the concrete runs below: an empty log over a reachable SQLite database,
  catalog rows for the key whose blob is empty, and two catalog lookups that answer alike
  on that key's fingerprint and differently elsewhere.
\<close>

definition world0 :: world where
  "world0 = \<lparr>db = \<lparr>db_url = ''sqlite:///bastion.db'', sqlite_fault = None, ssh_keys = [],
                      connection_logs = []\<rparr>,
             logged = []\<rparr>"

definition empty_blob_fingerprint :: string where
  "empty_blob_fingerprint = ''SHA256:47DEQpj8HBSa+/TImW+5JCeuQeRkm5NMpJWZG3hSuFU''"

definition catalog_row :: "string \<Rightarrow> string \<Rightarrow> int \<Rightarrow> ssh_keys_row" where
  "catalog_row fp th en =
     \<lparr>row_id = 1, row_fingerprint = fp, row_username = ''alice'', row_target_host = th,
      row_target_port = 22, row_target_user = ''ubuntu'', row_enabled = en\<rparr>"

definition world_with :: "ssh_keys_row list \<Rightarrow> world" where
  "world_with rows = world0\<lparr>db := (db world0)\<lparr>ssh_keys := rows\<rparr>\<rparr>"

definition finder_none :: lookup where
  "finder_none fp w = (Inr None, w)"

definition finder_picky :: lookup where
  "finder_picky fp w =
     (if fp = empty_blob_fingerprint then Inr None else Inl (OperationalError ''database is locked''), w)"

definition finder_raising :: lookup where
  "finder_raising fp w = (Inl (OperationalError ''database is locked''), w)"

definition world_down :: world where
  "world_down =
     world0\<lparr>db := (db world0)\<lparr>sqlite_fault := Some (OperationalError ''unable to open database file'')\<rparr>\<rparr>"

definition binding :: "string \<Rightarrow> int \<Rightarrow> SSHKey" where
  "binding th tp =
     \<lparr>key_id = Some 1, fingerprint = empty_blob_fingerprint, username = ''alice'',
      target_host = th, target_port = tp, target_user = ''ubuntu'', enabled = True\<rparr>"

definition target0 :: Target where
  "target0 = \<lparr>host = ''10.0.0.5'', port = 22, user = ''ubuntu''\<rparr>"

definition proxy1 :: SSHProxy where
  "proxy1 = store_connection 1 2 3 target0 ''198.51.100.7'' empty_blob_fingerprint SSHProxy_init"

section \<open>The fingerprint calculator\<close>

lemma b64_char_in_alphabet: "b64_char i \<in> set b64_alphabet"
  unfolding b64_char_def by (rule nth_mem) (simp add: b64_alphabet_def)

lemma pad_not_in_alphabet: "CHR ''='' \<notin> set b64_alphabet"
  by code_simp

lemma b64_char_not_pad: "b64_char i \<noteq> CHR ''=''"
  using b64_char_in_alphabet [of i] pad_not_in_alphabet by metis

lemma b64_char_mod: "b64_char (i mod 64) = b64_char i"
  by (simp add: b64_char_def)

lemma b64_char_cong: "i mod 64 = j mod 64 \<Longrightarrow> b64_char i = b64_char j"
  by (simp add: b64_char_def)

lemma rstrip_Nil: "rstrip c [] = []"
  by (simp add: rstrip_def)

lemma rstrip_snoc_other: "x \<noteq> c \<Longrightarrow> rstrip c (xs @ [x]) = xs @ [x]"
  by (simp add: rstrip_def)

lemma rstrip_snoc_same: "rstrip c (xs @ [c]) = rstrip c xs"
  by (simp add: rstrip_def)

lemma rstrip_append:
  "rstrip c (xs @ ys) = (if rstrip c ys = [] then rstrip c xs else xs @ rstrip c ys)"
  by (induction ys rule: rev_induct)
     (simp_all add: rstrip_def dropWhile_append split: if_splits)

lemma rstrip_b64encode: "rstrip CHR ''='' (b64encode bs) = base64_unpadded bs"
proof (induction bs rule: b64encode.induct)
  case 1
  show ?case by (simp add: rstrip_Nil)
next
  case (2 a)
  show ?case
    by (simp add: rstrip_def Let_def b64_char_not_pad)
next
  case (3 a b)
  show ?case
    by (simp add: rstrip_def Let_def b64_char_not_pad)
next
  case (4 a b c rest)
  define n where "n = unat a * 65536 + unat b * 256 + unat c"
  define g where "g = [b64_char (n div 262144), b64_char (n div 4096), b64_char (n div 64), b64_char n]"
  have g: "rstrip CHR ''='' g = g"
    by (simp add: g_def rstrip_def b64_char_not_pad)
  have "rstrip CHR ''='' (g @ b64encode rest) = g @ rstrip CHR ''='' (b64encode rest)"
    by (simp add: rstrip_append g)
  with 4 show ?case
    by (simp add: Let_def g_def n_def)
qed

lemma get_key_fingerprint_spec:
  "get_key_fingerprint (PKey (Inr blob)) w = (spec_fingerprint blob, w)"
  by (simp add: get_key_fingerprint_def spec_fingerprint_def rstrip_b64encode)

lemma spec_fingerprint_nonempty: "spec_fingerprint blob \<noteq> []"
  by (simp add: spec_fingerprint_def)


text \<open>
  The test vector of FIPS 180-4 for the empty message, computed by the kernel from the
  definition of \<open>sha256\<close>, and the fingerprint it gives.
\<close>

lemma sha256_empty:
  "sha256 [] = [227, 176, 196, 66, 152, 252, 28, 20, 154, 251, 244, 200, 153, 111,
     185, 36, 39, 174, 65, 228, 100, 155, 147, 76, 164, 149, 153, 27, 120, 82,
     184, 85]"
  by code_simp

lemma base64_empty_digest:
  "base64_unpadded [227, 176, 196, 66, 152, 252, 28, 20, 154, 251, 244, 200, 153, 111,
     185, 36, 39, 174, 65, 228, 100, 155, 147, 76, 164, 149, 153, 27, 120, 82,
     184, 85] = ''47DEQpj8HBSa+/TImW+5JCeuQeRkm5NMpJWZG3hSuFU''"
  by (simp add: Let_def b64_char_def b64_alphabet_def)

lemma spec_fingerprint_empty: "spec_fingerprint [] = empty_blob_fingerprint"
  by (simp only: spec_fingerprint_def sha256_empty base64_empty_digest empty_blob_fingerprint_def)
     simp

section \<open>The authenticator\<close>

lemma find_ssh_key_log_msg: "fst (find_ssh_key fp (log_msg l m w)) = fst (find_ssh_key fp w)"
  by (simp add: find_ssh_key_def log_msg_def split: sum.splits list.splits)

lemma find_ssh_key_enabled:
  "fst (find_ssh_key fp w) = Some k \<Longrightarrow> enabled k"
  by (auto simp: find_ssh_key_def SSHKey_init_def filter_eq_Cons_iff
           split: sum.splits list.splits if_splits)

lemma authenticate_key_try_fp:
  "fst (snd (authenticate_key_try finder un (PKey (Inr blob)) ip w)) = spec_fingerprint blob"
  by (simp add: authenticate_key_try_def get_key_fingerprint_spec spec_fingerprint_nonempty
           split: prod.splits sum.splits option.splits)

lemma authenticate_key_try_ext:
  assumes "\<forall>w'. f (spec_fingerprint blob) w' = g (spec_fingerprint blob) w'"
  shows "authenticate_key_try f un (PKey (Inr blob)) ip w
           = authenticate_key_try g un (PKey (Inr blob)) ip w"
  using assms
  by (simp add: authenticate_key_try_def get_key_fingerprint_spec spec_fingerprint_nonempty)

lemma authenticate_key_with_result:
  "fst (authenticate_key_with finder un (PKey (Inr blob)) ip w) =
     (case fst (finder (spec_fingerprint blob)
                  (log_connection_attempt ip (spec_fingerprint blob) un w)) of
        Inl e \<Rightarrow> (False, None)
      | Inr None \<Rightarrow> (False, None)
      | Inr (Some k) \<Rightarrow> if enabled k then (True, Some k) else (False, None))"
proof -
  obtain r w2 where
    f: "finder (spec_fingerprint blob) (log_connection_attempt ip (spec_fingerprint blob) un w)
          = (r, w2)"
    by (cases "finder (spec_fingerprint blob)
                 (log_connection_attempt ip (spec_fingerprint blob) un w)")
  show ?thesis
  proof (cases r)
    case (Inl e)
    with f show ?thesis
      by (simp add: authenticate_key_with_def authenticate_key_try_def
            get_key_fingerprint_spec spec_fingerprint_nonempty)
  next
    case (Inr res)
    show ?thesis
    proof (cases res)
      case None
      with f Inr show ?thesis
        by (simp add: authenticate_key_with_def authenticate_key_try_def
              get_key_fingerprint_spec spec_fingerprint_nonempty)
    next
      case (Some k)
      with f Inr show ?thesis
        by (simp add: authenticate_key_with_def authenticate_key_try_def
              get_key_fingerprint_spec spec_fingerprint_nonempty)
    qed
  qed
qed

text \<open>
  Claim C3.  For every presented key blob, the fingerprint that the authenticator computes
  is the string \<open>SHA256:\<close> followed by the unpadded base64 encoding of the SHA-256
  digest of exactly that blob; it is the fingerprint bound in \<^verbatim>\<open>authenticate_key\<close>;
  the catalog lookup is made at this fingerprint, and the decision and the binding returned
  are what the lookup answers there (rejected when it raises or finds nothing, the binding
  found when it is enabled); and two catalogs that answer alike at this one fingerprint
  give the same authentication, whatever they answer elsewhere.
\<close>

theorem fingerprint_keys_lookup:
  "fst (get_key_fingerprint (PKey (Inr blob)) w) = spec_fingerprint blob
   \<and> fst (snd (authenticate_key_try finder un (PKey (Inr blob)) ip w)) = spec_fingerprint blob
   \<and> fst (authenticate_key_with finder un (PKey (Inr blob)) ip w)
       = (case fst (finder (spec_fingerprint blob)
                      (log_connection_attempt ip (spec_fingerprint blob) un w)) of
            Inl e \<Rightarrow> (False, None)
          | Inr None \<Rightarrow> (False, None)
          | Inr (Some k) \<Rightarrow> if enabled k then (True, Some k) else (False, None))
   \<and> ((\<forall>w'. f (spec_fingerprint blob) w' = g (spec_fingerprint blob) w') \<longrightarrow>
          authenticate_key_with f un (PKey (Inr blob)) ip w
            = authenticate_key_with g un (PKey (Inr blob)) ip w)"
proof (intro conjI impI)
  show "fst (get_key_fingerprint (PKey (Inr blob)) w) = spec_fingerprint blob"
    by (simp add: get_key_fingerprint_spec)
  show "fst (snd (authenticate_key_try finder un (PKey (Inr blob)) ip w)) = spec_fingerprint blob"
    by (rule authenticate_key_try_fp)
  show "fst (authenticate_key_with finder un (PKey (Inr blob)) ip w)
       = (case fst (finder (spec_fingerprint blob)
                      (log_connection_attempt ip (spec_fingerprint blob) un w)) of
            Inl e \<Rightarrow> (False, None)
          | Inr None \<Rightarrow> (False, None)
          | Inr (Some k) \<Rightarrow> if enabled k then (True, Some k) else (False, None))"
    by (rule authenticate_key_with_result)
next
  assume "\<forall>w'. f (spec_fingerprint blob) w' = g (spec_fingerprint blob) w'"
  then show "authenticate_key_with f un (PKey (Inr blob)) ip w
               = authenticate_key_with g un (PKey (Inr blob)) ip w"
    by (simp add: authenticate_key_with_def authenticate_key_try_ext [of f blob g])
qed

theorem fingerprint_keys_lookup_witness:
  "(\<forall>w'. finder_none (spec_fingerprint []) w' = finder_picky (spec_fingerprint []) w')
   \<and> authenticate_key_with finder_none ''alice'' (PKey (Inr [])) ''198.51.100.7'' world0
       = authenticate_key_with finder_picky ''alice'' (PKey (Inr [])) ''198.51.100.7'' world0"
proof -
  have h: "\<forall>w'. finder_none (spec_fingerprint []) w' = finder_picky (spec_fingerprint []) w'"
    by (simp add: finder_none_def finder_picky_def spec_fingerprint_empty)
  note t = fingerprint_keys_lookup
         [of "[]" world0 finder_none "''alice''" "''198.51.100.7''" finder_none finder_picky,
          THEN conjunct2, THEN conjunct2, THEN conjunct2, THEN mp, OF h]
  show ?thesis by (intro conjI h t)
qed

lemma authenticate_key_result:
  "fst (authenticate_key un public_key source_ip w) =
     (case asbytes public_key of
        Inl e \<Rightarrow> (False, None)
      | Inr blob \<Rightarrow>
          (case fst (find_ssh_key (spec_fingerprint blob) w) of
             None \<Rightarrow> (False, None)
           | Some k \<Rightarrow> if enabled k then (True, Some k) else (False, None)))"
proof (cases public_key)
  case (PKey r)
  show ?thesis
  proof (cases r)
    case (Inl e)
    with PKey show ?thesis
      by (simp add: authenticate_key_def authenticate_key_with_def authenticate_key_try_def
            get_key_fingerprint_def)
  next
    case (Inr blob)
    obtain res w2 where
      f: "find_ssh_key (spec_fingerprint blob)
            (log_connection_attempt source_ip (spec_fingerprint blob) un w) = (res, w2)"
      by (cases "find_ssh_key (spec_fingerprint blob)
                   (log_connection_attempt source_ip (spec_fingerprint blob) un w)")
    have "fst (find_ssh_key (spec_fingerprint blob)
            (log_connection_attempt source_ip (spec_fingerprint blob) un w))
          = fst (find_ssh_key (spec_fingerprint blob) w)"
      by (simp add: log_connection_attempt_def find_ssh_key_log_msg)
    with f have res: "fst (find_ssh_key (spec_fingerprint blob) w) = res"
      by simp
    show ?thesis
    proof (cases res)
      case None
      with PKey Inr f res show ?thesis
        by (simp add: authenticate_key_def authenticate_key_with_def authenticate_key_try_def
              get_key_fingerprint_spec spec_fingerprint_nonempty Database_find_ssh_key_def)
    next
      case (Some k)
      with PKey Inr f res show ?thesis
        by (simp add: authenticate_key_def authenticate_key_with_def authenticate_key_try_def
              get_key_fingerprint_spec spec_fingerprint_nonempty Database_find_ssh_key_def)
    qed
  qed
qed

text \<open>
  Claim C8.  For any two presented usernames and the same key, catalog state and source
  address, the authenticator returns the same decision and the same binding: the username
  only appears in the log lines.
\<close>

theorem username_not_authorization_input:
  "fst (authenticate_key u1 public_key source_ip w) = fst (authenticate_key u2 public_key source_ip w)"
  by (simp only: authenticate_key_result)

lemma empty_blob_fingerprint_nonempty: "empty_blob_fingerprint \<noteq> []"
  by (simp add: empty_blob_fingerprint_def)

lemma authenticate_key_with_raise:
  "authenticate_key_try finder un public_key source_ip w = (Inl e, fp, w')
     \<Longrightarrow> fst (authenticate_key_with finder un public_key source_ip w) = (False, None)"
  by (simp add: authenticate_key_with_def)

lemma authenticate_key_with_accept:
  assumes "fst (fst (authenticate_key_with finder un public_key source_ip w))"
  shows "\<exists>k. snd (fst (authenticate_key_with finder un public_key source_ip w)) = Some k \<and> enabled k"
proof -
  obtain r fp w' where t: "authenticate_key_try finder un public_key source_ip w = (r, fp, w')"
    by (cases "authenticate_key_try finder un public_key source_ip w")
  show ?thesis
  proof (cases r)
    case (Inl e)
    with t assms show ?thesis by (simp add: authenticate_key_with_def)
  next
    case (Inr p)
    with t have "fst (authenticate_key_with finder un public_key source_ip w) = p"
      by (simp add: authenticate_key_with_def)
    moreover from t Inr have "fst p \<longrightarrow> (\<exists>k. snd p = Some k \<and> enabled k)"
      by (auto simp: authenticate_key_try_def Let_def
               split: prod.splits if_splits sum.splits option.splits)
    ultimately show ?thesis using assms by simp
  qed
qed

lemma find_ssh_key_unreachable:
  "get_connection (db w) = Inl e \<Longrightarrow> fst (find_ssh_key fp w) = None"
  by (simp add: find_ssh_key_def)

text \<open>
  Claim C10.  \<^verbatim>\<open>authenticate_key\<close> always returns a pair: every exception of its body is
  a branch of the model that the handler turns into \<open>(False, None)\<close>.  An exception raised
  by the catalog lookup gives \<open>(False, None)\<close>; on the real database an unreachable
  catalog gives \<open>(False, None)\<close>; and whenever the first component is true, the second
  is a binding whose \<open>enabled\<close> flag is true.
\<close>

theorem authenticate_key_total:
  "(\<forall>e fp w'. authenticate_key_try finder un public_key source_ip w = (Inl e, fp, w')
        \<longrightarrow> fst (authenticate_key_with finder un public_key source_ip w) = (False, None))
   \<and> (\<forall>e. get_connection (db w) = Inl e
        \<longrightarrow> fst (authenticate_key un public_key source_ip w) = (False, None))
   \<and> (fst (fst (authenticate_key_with finder un public_key source_ip w))
        \<longrightarrow> (\<exists>k. snd (fst (authenticate_key_with finder un public_key source_ip w)) = Some k
                 \<and> enabled k))"
proof (intro conjI allI impI)
  fix e fp w'
  assume "authenticate_key_try finder un public_key source_ip w = (Inl e, fp, w')"
  then show "fst (authenticate_key_with finder un public_key source_ip w) = (False, None)"
    by (rule authenticate_key_with_raise)
next
  fix e
  assume "get_connection (db w) = Inl e"
  then show "fst (authenticate_key un public_key source_ip w) = (False, None)"
    by (simp add: authenticate_key_result find_ssh_key_unreachable split: sum.splits)
next
  assume "fst (fst (authenticate_key_with finder un public_key source_ip w))"
  then show "\<exists>k. snd (fst (authenticate_key_with finder un public_key source_ip w)) = Some k
                 \<and> enabled k"
    by (rule authenticate_key_with_accept)
qed

lemma try_raising:
  "authenticate_key_try finder_raising ''alice'' (PKey (Inr [])) ''198.51.100.7'' world0
     = (Inl (OperationalError ''database is locked''), empty_blob_fingerprint,
        log_connection_attempt ''198.51.100.7'' empty_blob_fingerprint ''alice'' world0)"
  by (simp add: authenticate_key_try_def get_key_fingerprint_spec spec_fingerprint_empty
        empty_blob_fingerprint_nonempty finder_raising_def)

lemma accept_enabled_row:
  "fst (authenticate_key ''alice'' (PKey (Inr [])) ''198.51.100.7''
          (world_with [catalog_row empty_blob_fingerprint ''10.0.0.5'' 1]))
     = (True, Some (binding ''10.0.0.5'' 22))"
  by (simp add: authenticate_key_result spec_fingerprint_empty find_ssh_key_def world_with_def
        world0_def get_connection_def startswith_def catalog_row_def SSHKey_init_def binding_def
        empty_blob_fingerprint_nonempty)

theorem authenticate_key_total_witness:
  "(authenticate_key_try finder_raising ''alice'' (PKey (Inr [])) ''198.51.100.7'' world0
      = (Inl (OperationalError ''database is locked''), empty_blob_fingerprint,
         log_connection_attempt ''198.51.100.7'' empty_blob_fingerprint ''alice'' world0)
    \<and> fst (authenticate_key_with finder_raising ''alice'' (PKey (Inr [])) ''198.51.100.7'' world0)
        = (False, None))
   \<and> (get_connection (db world_down) = Inl (OperationalError ''unable to open database file'')
    \<and> fst (authenticate_key ''alice'' (PKey (Inr [])) ''198.51.100.7'' world_down) = (False, None))
   \<and> (fst (fst (authenticate_key_with Database_find_ssh_key ''alice'' (PKey (Inr []))
                  ''198.51.100.7'' (world_with [catalog_row empty_blob_fingerprint ''10.0.0.5'' 1])))
    \<and> (\<exists>k. snd (fst (authenticate_key_with Database_find_ssh_key ''alice'' (PKey (Inr []))
                  ''198.51.100.7'' (world_with [catalog_row empty_blob_fingerprint ''10.0.0.5'' 1])))
             = Some k \<and> enabled k))"
proof -
  have h1: "authenticate_key_try finder_raising ''alice'' (PKey (Inr [])) ''198.51.100.7'' world0
      = (Inl (OperationalError ''database is locked''), empty_blob_fingerprint,
         log_connection_attempt ''198.51.100.7'' empty_blob_fingerprint ''alice'' world0)"
    by (rule try_raising)
  have h2: "get_connection (db world_down) = Inl (OperationalError ''unable to open database file'')"
    by (simp add: world_down_def world0_def get_connection_def startswith_def)
  have h3: "fst (fst (authenticate_key_with Database_find_ssh_key ''alice'' (PKey (Inr []))
                  ''198.51.100.7'' (world_with [catalog_row empty_blob_fingerprint ''10.0.0.5'' 1])))"
    using accept_enabled_row by (simp add: authenticate_key_def)
  note t1 = authenticate_key_total
    [of finder_raising "''alice''" "PKey (Inr [])" "''198.51.100.7''" world0,
     THEN conjunct1, rule_format, OF h1]
  note t2 = authenticate_key_total
    [of finder_raising "''alice''" "PKey (Inr [])" "''198.51.100.7''" world_down,
     THEN conjunct2, THEN conjunct1, rule_format, OF h2]
  note t3 = authenticate_key_total
    [of Database_find_ssh_key "''alice''" "PKey (Inr [])" "''198.51.100.7''"
        "world_with [catalog_row empty_blob_fingerprint ''10.0.0.5'' 1]",
     THEN conjunct2, THEN conjunct2, rule_format, OF h3]
  show ?thesis by (intro conjI h1 h2 h3 t1 t2 t3)
qed

text \<open>
  Claim C9, as amended.  The fingerprint of the empty key blob is not empty: it is
  \<open>SHA256:\<close> followed by the unpadded base64 encoding of the SHA-256 digest of the
  empty byte string, and authentication is decided by the catalog lookup of that
  fingerprint, as for any other key.  The fingerprint is the empty string only when reading
  the key's bytes raises: it is not empty for any blob that is read, it is empty when the
  read raises, and then authentication is rejected.
\<close>

theorem empty_blob_is_hashed:
  "fst (get_key_fingerprint (PKey (Inr [])) w) = empty_blob_fingerprint
   \<and> fst (authenticate_key un (PKey (Inr [])) source_ip w)
       = (case fst (find_ssh_key empty_blob_fingerprint w) of
            None \<Rightarrow> (False, None)
          | Some k \<Rightarrow> if enabled k then (True, Some k) else (False, None))
   \<and> fst (get_key_fingerprint (PKey (Inr blob)) w) \<noteq> []
   \<and> fst (get_key_fingerprint (PKey (Inl e)) w) = []
   \<and> fst (authenticate_key_with finder un (PKey (Inl e)) source_ip w) = (False, None)"
proof (intro conjI)
  show "fst (get_key_fingerprint (PKey (Inr blob)) w) \<noteq> []"
    by (simp add: get_key_fingerprint_spec spec_fingerprint_nonempty)
  show "fst (get_key_fingerprint (PKey (Inr [])) w) = empty_blob_fingerprint"
    by (simp add: get_key_fingerprint_spec spec_fingerprint_empty)
  show "fst (authenticate_key un (PKey (Inr [])) source_ip w)
       = (case fst (find_ssh_key empty_blob_fingerprint w) of
            None \<Rightarrow> (False, None)
          | Some k \<Rightarrow> if enabled k then (True, Some k) else (False, None))"
    by (simp add: authenticate_key_result spec_fingerprint_empty)
  show "fst (get_key_fingerprint (PKey (Inl e)) w) = []"
    by (simp add: get_key_fingerprint_def)
  show "fst (authenticate_key_with finder un (PKey (Inl e)) source_ip w) = (False, None)"
    by (simp add: get_key_fingerprint_def authenticate_key_with_def authenticate_key_try_def)
qed

text \<open>
  Claim C9 as stated fails: with the empty key blob the fingerprint is not the empty
  string, and a catalog row that carries this fingerprint makes the authentication succeed.
\<close>

theorem empty_blob_counterexample:
  "fst (get_key_fingerprint (PKey (Inr []))
          (world_with [catalog_row empty_blob_fingerprint ''10.0.0.5'' 1])) \<noteq> []
   \<and> fst (authenticate_key ''alice'' (PKey (Inr [])) ''198.51.100.7''
            (world_with [catalog_row empty_blob_fingerprint ''10.0.0.5'' 1]))
       = (True, Some (binding ''10.0.0.5'' 22))"
  by (simp add: get_key_fingerprint_spec spec_fingerprint_nonempty accept_enabled_row)

text \<open>
  Claim C7 at a concrete catalog.  The row matches the presented key and is disabled: the
  query of \<^verbatim>\<open>find_ssh_key\<close> filters it out, authentication is rejected, and the denied
  line carries the reason of an unknown key, the same line as with an empty catalog; the
  branch of \<^verbatim>\<open>authenticate_key\<close> that would log ``SSH key is disabled'' is not reached.
\<close>

theorem disabled_key_reported_as_unknown:
  "authenticate_key ''alice'' (PKey (Inr [])) ''198.51.100.7''
     (world_with [catalog_row empty_blob_fingerprint ''10.0.0.5'' 0])
   = ((False, None),
      (world_with [catalog_row empty_blob_fingerprint ''10.0.0.5'' 0])
        \<lparr>logged :=
           [(INFO, ''Connection attempt - IP: 198.51.100.7, Fingerprint: SHA256:47DEQpj8H..., User: alice''),
            (WARNING, ''Connection DENIED - IP: 198.51.100.7, Fingerprint: SHA256:47DEQpj8H..., User: alice, Reason: SSH key not found in database'')]\<rparr>)
   \<and> logged (snd (authenticate_key ''alice'' (PKey (Inr [])) ''198.51.100.7'' (world_with [])))
     = [(INFO, ''Connection attempt - IP: 198.51.100.7, Fingerprint: SHA256:47DEQpj8H..., User: alice''),
        (WARNING, ''Connection DENIED - IP: 198.51.100.7, Fingerprint: SHA256:47DEQpj8H..., User: alice, Reason: SSH key not found in database'')]"
  by (simp add: authenticate_key_def authenticate_key_with_def authenticate_key_try_def
        get_key_fingerprint_spec spec_fingerprint_empty Database_find_ssh_key_def
        find_ssh_key_def world_with_def world0_def get_connection_def startswith_def
        catalog_row_def log_connection_attempt_def log_connection_denied_def log_msg_def
        empty_blob_fingerprint_def)


section \<open>The router\<close>

lemma restricted_loop_match:
  assumes "ip_address lib (host target) = Inr a" and "c \<in> set restricted"
    and "ip_network lib c = Inr n" and "net_contains n a"
  shows "fst (restricted_loop lib target restricted w) \<noteq> Inr True"
  using assms(2)
proof (induction restricted)
  case Nil
  then show ?case by simp
next
  case (Cons h hs)
  show ?case
  proof (cases "ip_network lib h")
    case (Inl e)
    with assms(1) show ?thesis by simp
  next
    case (Inr m)
    show ?thesis
    proof (cases "net_contains m a")
      case True
      with Inr assms(1) show ?thesis by simp
    next
      case False
      with Inr assms(3,4) have "c \<noteq> h" by auto
      with Cons.prems have "c \<in> set hs" by simp
      with Cons.IH Inr False assms(1) show ?thesis by simp
    qed
  qed
qed

lemma validate_target_restricted:
  assumes "ip_address lib (host target) = Inr a" and "c \<in> set restricted"
    and "ip_network lib c = Inr n" and "net_contains n a"
  shows "fst (validate_target lib restricted target w) = False"
proof -
  obtain r w' where l: "restricted_loop lib target restricted w = (r, w')"
    by (cases "restricted_loop lib target restricted w")
  with restricted_loop_match [OF assms, of w] have "r \<noteq> Inr True" by simp
  with l show ?thesis
    by (cases r) (simp_all add: validate_target_def)
qed

lemma get_target_invalid:
  assumes "fst (validate_target lib restricted
                  \<lparr>host = target_host k, port = target_port k, user = target_user k\<rparr> w) = False"
  shows "fst (get_target lib restricted (Some k) un source_ip w) = None"
proof (cases "Target_init (target_host k) (target_port k) (target_user k)")
  case (Inl e)
  then show ?thesis by (simp add: get_target_def)
next
  case (Inr target)
  then have "target = \<lparr>host = target_host k, port = target_port k, user = target_user k\<rparr>"
    by (simp add: Target_init_def split: if_splits)
  moreover obtain b w1 where
    v: "validate_target lib restricted
          \<lparr>host = target_host k, port = target_port k, user = target_user k\<rparr> w = (b, w1)"
    by (cases "validate_target lib restricted
                 \<lparr>host = target_host k, port = target_port k, user = target_user k\<rparr> w")
  moreover from v assms have "b = False" by simp
  ultimately show ?thesis using Inr
    by (simp add: get_target_def)
qed

text \<open>
  Claim C1.  When the target host of a binding parses as an IP address and some configured
  restricted network parses and contains that address, the validation of the target fails
  and \<^verbatim>\<open>get_target\<close> returns \<^verbatim>\<open>None\<close>, whatever the other entries of the list are
  and wherever the matching entry stands; the listener opens a session only for a target
  that is not \<^verbatim>\<open>None\<close>.
\<close>

theorem restricted_target_rejected:
  assumes "ip_address lib (target_host k) = Inr a" and "c \<in> set restricted"
    and "ip_network lib c = Inr n" and "net_contains n a"
  shows "fst (validate_target lib restricted
                \<lparr>host = target_host k, port = target_port k, user = target_user k\<rparr> w) = False
         \<and> fst (get_target lib restricted (Some k) un source_ip w) = None"
proof -
  have "ip_address lib (host \<lparr>host = target_host k, port = target_port k, user = target_user k\<rparr>)
          = Inr a"
    using assms(1) by simp
  from validate_target_restricted [OF this assms(2,3,4)]
  have v: "fst (validate_target lib restricted
                \<lparr>host = target_host k, port = target_port k, user = target_user k\<rparr> w) = False" .
  from v get_target_invalid [OF v] show ?thesis by simp
qed

lemma parse_10_10_254_42:
  "ip_address ipaddress_v4 ''10.10.254.42'' = Inr \<lparr>ip_version = 4, ip_int = 168492586\<rparr>"
  by (simp add: ipaddress_v4_def IPv4Address_def parse_octet_def is_ascii_digit_def
        int_of_decimal_def)

lemma parse_10_10_254_0_24:
  "ip_network ipaddress_v4 ''10.10.254.0/24''
     = Inr \<lparr>net_version = 4, network_address = 168492544, netmask = 4294967040\<rparr>"
  by (simp add: ipaddress_v4_def IPv4Network_def IPv4Address_def parse_octet_def
        is_ascii_digit_def int_of_decimal_def prefix_from_prefix_string_def Let_def)

lemma contains_10_10_254_42:
  "net_contains \<lparr>net_version = 4, network_address = 168492544, netmask = 4294967040\<rparr>
     \<lparr>ip_version = 4, ip_int = 168492586\<rparr>"
  by (simp add: net_contains_def)


theorem restricted_target_rejected_witness:
  "ip_address ipaddress_v4 (target_host (binding ''10.10.254.42'' 22))
     = Inr \<lparr>ip_version = 4, ip_int = 168492586\<rparr>
   \<and> ''10.10.254.0/24'' \<in> set [''10.10.254.0/24'']
   \<and> ip_network ipaddress_v4 ''10.10.254.0/24''
       = Inr \<lparr>net_version = 4, network_address = 168492544, netmask = 4294967040\<rparr>
   \<and> net_contains \<lparr>net_version = 4, network_address = 168492544, netmask = 4294967040\<rparr>
         \<lparr>ip_version = 4, ip_int = 168492586\<rparr>
   \<and> fst (validate_target ipaddress_v4 [''10.10.254.0/24'']
            \<lparr>host = target_host (binding ''10.10.254.42'' 22),
             port = target_port (binding ''10.10.254.42'' 22),
             user = target_user (binding ''10.10.254.42'' 22)\<rparr> world0) = False
   \<and> fst (get_target ipaddress_v4 [''10.10.254.0/24''] (Some (binding ''10.10.254.42'' 22))
            ''alice'' ''198.51.100.7'' world0) = None"
proof -
  have h1: "ip_address ipaddress_v4 (target_host (binding ''10.10.254.42'' 22))
              = Inr \<lparr>ip_version = 4, ip_int = 168492586\<rparr>"
    by (simp add: binding_def parse_10_10_254_42)
  have h2: "''10.10.254.0/24'' \<in> set [''10.10.254.0/24'']"
    by simp
  note h3 = parse_10_10_254_0_24
  note h4 = contains_10_10_254_42
  note t = restricted_target_rejected
             [OF h1 h2 h3 h4, of world0 "''alice''" "''198.51.100.7''"]
  show ?thesis by (intro conjI h1 h2 h3 h4 t [THEN conjunct1] t [THEN conjunct2])
qed

text \<open>
  A host that is not an IP literal makes \<^verbatim>\<open>ipaddress.ip_address\<close> raise in the first
  iteration of the loop, and the handler of \<^verbatim>\<open>_validate_target\<close> answers \<open>False\<close>:
  a DNS name is routed only when the list of restricted networks is empty.
\<close>

lemma get_target_name_rejected:
  assumes "ip_address lib (target_host k) = Inl e" and "restricted \<noteq> []"
  shows "fst (get_target lib restricted (Some k) un source_ip w) = None"
proof -
  obtain h hs where r: "restricted = h # hs"
    using assms(2) by (cases restricted) auto
  have "fst (validate_target lib restricted
               \<lparr>host = target_host k, port = target_port k, user = target_user k\<rparr> w) = False"
    using assms(1) by (simp add: validate_target_def r)
  then show ?thesis by (rule get_target_invalid)
qed

lemma get_target_without_networks:
  assumes "enabled k" and "target_host k \<noteq> []" and "target_user k \<noteq> []"
    and "1 \<le> target_port k" and "target_port k \<le> 65535"
  shows "fst (get_target lib [] (Some k) un source_ip w)
           = Some \<lparr>host = target_host k, port = target_port k, user = target_user k\<rparr>"
  using assms by (simp add: get_target_def Target_init_def validate_target_def)

lemma parse_example_com:
  "ip_address ipaddress_v4 ''example.com''
     = Inl (ValueError (repr_str ''example.com''
                        @ '' does not appear to be an IPv4 or IPv6 address''))"
  by (simp add: ipaddress_v4_def IPv4Address_def)

text \<open>
  Claim C2 at a concrete binding.  The binding is enabled, its host is the DNS name
  \<open>example.com\<close>, its user is not empty and its port is 22; with the default list of
  restricted networks \<^verbatim>\<open>get_target\<close> returns \<^verbatim>\<open>None\<close> and logs a validation
  error.
\<close>

theorem dns_name_target_rejected:
  "fst (get_target ipaddress_v4 [''10.10.254.0/24''] (Some (binding ''example.com'' 22))
          ''alice'' ''198.51.100.7'' world0) = None
   \<and> logged (snd (get_target ipaddress_v4 [''10.10.254.0/24''] (Some (binding ''example.com'' 22))
                    ''alice'' ''198.51.100.7'' world0))
       = [(ERROR, ''Target validation error: '' @ repr_str ''example.com''
                  @ '' does not appear to be an IPv4 or IPv6 address''),
          (WARNING, ''Connection DENIED - IP: 198.51.100.7, Fingerprint: SHA256:47DEQpj8H..., User: alice, Reason: Invalid target configuration'')]"
  by (simp add: get_target_def binding_def Target_init_def validate_target_def
        parse_example_com world0_def log_msg_def log_connection_denied_def
        empty_blob_fingerprint_def)

text \<open>A routing rejection after validation leaves the database as it was.\<close>

lemma restricted_loop_db: "db (snd (restricted_loop lib target restricted w)) = db w"
  by (induction restricted) (simp_all add: log_msg_def split: sum.splits)

lemma validate_target_db: "db (snd (validate_target lib restricted target w)) = db w"
proof -
  obtain r w' where l: "restricted_loop lib target restricted w = (r, w')"
    by (cases "restricted_loop lib target restricted w")
  with restricted_loop_db [of lib target restricted w] have "db w' = db w" by simp
  with l show ?thesis
    by (cases r) (simp_all add: validate_target_def log_msg_def)
qed

lemma get_target_denied_db:
  assumes "Target_init (target_host k) (target_port k) (target_user k) = Inr target"
    and "fst (validate_target lib restricted target w) = False"
  shows "db (snd (get_target lib restricted (Some k) un source_ip w)) = db w"
proof -
  obtain b w1 where v: "validate_target lib restricted target w = (b, w1)"
    by (cases "validate_target lib restricted target w")
  with assms(2) have b: "b = False" by simp
  from v validate_target_db [of lib restricted target w] have "db w1 = db w" by simp
  with v b assms(1) show ?thesis
    by (simp add: get_target_def log_connection_denied_def log_msg_def)
qed

text \<open>
  Claim C6 at concrete bindings.  A binding whose target lies in a restricted network is
  rejected with a warning line in the text log, and table \<^verbatim>\<open>connection_logs\<close> stays
  empty: no ConnectionEvent is created.  On the same router a routed binding writes one
  event with status \<open>success\<close>, and a binding whose \<^verbatim>\<open>Target\<close> cannot be constructed
  writes one event with status \<open>error\<close>.
\<close>

theorem routing_rejection_writes_no_event:
  "fst (get_target ipaddress_v4 [''10.10.254.0/24''] (Some (binding ''10.10.254.42'' 22))
          ''alice'' ''198.51.100.7'' world0) = None
   \<and> connection_logs (db (snd (get_target ipaddress_v4 [''10.10.254.0/24'']
          (Some (binding ''10.10.254.42'' 22)) ''alice'' ''198.51.100.7'' world0))) = []
   \<and> logged (snd (get_target ipaddress_v4 [''10.10.254.0/24'']
          (Some (binding ''10.10.254.42'' 22)) ''alice'' ''198.51.100.7'' world0))
       = [(ERROR, ''Target host 10.10.254.42 is in restricted network 10.10.254.0/24!''),
          (WARNING, ''Connection DENIED - IP: 198.51.100.7, Fingerprint: SHA256:47DEQpj8H..., User: alice, Reason: Invalid target configuration'')]
   \<and> map ev_status (connection_logs (db (snd (get_target ipaddress_v4 [''10.10.254.0/24'']
          (Some (binding ''10.0.0.5'' 22)) ''alice'' ''198.51.100.7'' world0)))) = [''success'']
   \<and> map ev_status (connection_logs (db (snd (get_target ipaddress_v4 [''10.10.254.0/24'']
          (Some (binding ''10.0.0.5'' 0)) ''alice'' ''198.51.100.7'' world0)))) = [''error'']"
proof (intro conjI)
  have v: "validate_target ipaddress_v4 [''10.10.254.0/24'']
             \<lparr>host = ''10.10.254.42'', port = 22, user = ''ubuntu''\<rparr> world0
           = (False, log_msg ERROR
                ''Target host 10.10.254.42 is in restricted network 10.10.254.0/24!'' world0)"
    by (simp add: validate_target_def parse_10_10_254_42 parse_10_10_254_0_24
          contains_10_10_254_42)
  have g: "get_target ipaddress_v4 [''10.10.254.0/24''] (Some (binding ''10.10.254.42'' 22))
             ''alice'' ''198.51.100.7'' world0
           = (None, log_connection_denied ''198.51.100.7'' empty_blob_fingerprint ''alice''
                      ''Invalid target configuration''
                      (log_msg ERROR
                         ''Target host 10.10.254.42 is in restricted network 10.10.254.0/24!''
                         world0))"
    by (simp add: get_target_def binding_def Target_init_def v)
  show "fst (get_target ipaddress_v4 [''10.10.254.0/24''] (Some (binding ''10.10.254.42'' 22))
          ''alice'' ''198.51.100.7'' world0) = None"
    by (simp add: g)
  show "connection_logs (db (snd (get_target ipaddress_v4 [''10.10.254.0/24'']
          (Some (binding ''10.10.254.42'' 22)) ''alice'' ''198.51.100.7'' world0))) = []"
    unfolding g by (simp add: log_connection_denied_def log_msg_def world0_def)
  show "logged (snd (get_target ipaddress_v4 [''10.10.254.0/24'']
          (Some (binding ''10.10.254.42'' 22)) ''alice'' ''198.51.100.7'' world0))
       = [(ERROR, ''Target host 10.10.254.42 is in restricted network 10.10.254.0/24!''),
          (WARNING, ''Connection DENIED - IP: 198.51.100.7, Fingerprint: SHA256:47DEQpj8H..., User: alice, Reason: Invalid target configuration'')]"
    unfolding g
    by (simp add: log_connection_denied_def log_msg_def world0_def empty_blob_fingerprint_def)
  have c: "get_connection (db world0) = Inr ()"
    by (simp add: world0_def get_connection_def startswith_def)
  have e: "connection_logs (db world0) = []"
    by (simp add: world0_def)
  have a: "ip_address ipaddress_v4 ''10.0.0.5'' = Inr \<lparr>ip_version = 4, ip_int = 167772165\<rparr>"
    by (simp add: ipaddress_v4_def IPv4Address_def parse_octet_def is_ascii_digit_def
          int_of_decimal_def)
  have v2: "validate_target ipaddress_v4 [''10.10.254.0/24'']
             \<lparr>host = ''10.0.0.5'', port = 22, user = ''ubuntu''\<rparr> world0 = (True, world0)"
    by (simp add: validate_target_def a parse_10_10_254_0_24 net_contains_def)
  show "map ev_status (connection_logs (db (snd (get_target ipaddress_v4 [''10.10.254.0/24'']
          (Some (binding ''10.0.0.5'' 22)) ''alice'' ''198.51.100.7'' world0)))) = [''success'']"
    by (simp add: get_target_def binding_def Target_init_def v2 router_log_connection_event_def
          log_connection_event_def log_connection_success_def log_msg_def c e)
  show "map ev_status (connection_logs (db (snd (get_target ipaddress_v4 [''10.10.254.0/24'']
          (Some (binding ''10.0.0.5'' 0)) ''alice'' ''198.51.100.7'' world0)))) = [''error'']"
    by (simp add: get_target_def binding_def Target_init_def router_log_connection_event_def
          log_connection_event_def log_msg_def c e)
qed


section \<open>The relay engine\<close>

text \<open>
  The teardown calls \<^verbatim>\<open>close()\<close> on the client channel, the target channel and the
  outbound client, in that order, whether or not an earlier call raised.  The entry leaves
  the registry only if the value under \<^verbatim>\<open>'target'\<close> answers \<^verbatim>\<open>.get\<close>; the entries
  that \<^verbatim>\<open>setup_proxy_session\<close> stores hold a \<^verbatim>\<open>Target\<close> instance and stay.
\<close>

lemma close_handle_calls: "close_calls (close_handle cr h p) = close_calls p @ [h]"
  by (simp add: close_handle_def)

lemma close_handle_registry: "active_connections (close_handle cr h p) = active_connections p"
  by (simp add: close_handle_def)

lemma close_handle_closed:
  "closed_handles (close_handle cr h p) = closed_handles p @ (if cr h then [] else [h])"
  by (simp add: close_handle_def)

lemma cleanup_closes_in_order:
  assumes "active_connections p cid = Some ci"
  shows "close_calls (cleanup_connection cr cid p)
           = close_calls p @ [Channel (ci_client_channel ci), Channel (ci_target_channel ci),
                              SSHClient (ci_target_ssh ci)]"
    and "closed_handles (cleanup_connection cr cid p)
           = closed_handles p
             @ filter (\<lambda>h. \<not> cr h)
                 [Channel (ci_client_channel ci), Channel (ci_target_channel ci),
                  SSHClient (ci_target_ssh ci)]"
  using assms
  by (simp_all add: cleanup_connection_def Let_def close_handle_def plog_def split: sum.splits)

lemma cleanup_entry:
  assumes "active_connections p cid = Some ci"
  shows "active_connections (cleanup_connection cr cid p) cid
           = (case ci_target ci of TargetObj t \<Rightarrow> Some ci | DictObj d \<Rightarrow> None)"
  using assms
  by (cases "ci_target ci")
     (simp_all add: cleanup_connection_def Let_def close_handle_def plog_def)

lemma stored_entry_survives_cleanup:
  "active_connections
     (cleanup_connection cr (connection_id source_ip fp)
        (store_connection c s t target source_ip fp p)) (connection_id source_ip fp) \<noteq> None"
  by (simp add: cleanup_entry store_connection_def)

text \<open>
  Claim C4 at a concrete session.  The session is registered by \<^verbatim>\<open>setup_proxy_session\<close>;
  at the second poll the first relay worker has exited.  The supervisor runs the teardown:
  the three handles are closed in the order client channel, target channel, outbound
  client, and then the attribute error of \<^verbatim>\<open>Target.get\<close> skips the deletion, so the
  session's entry is still in the registry and an error line is logged.
\<close>

theorem teardown_leaves_registry_entry:
  "monitor_connection (\<lambda>h. False) ''198.51.100.7:SHA256:4'' [(True, True), (False, True)] proxy1
     = Some (cleanup_connection (\<lambda>h. False) ''198.51.100.7:SHA256:4'' proxy1)
   \<and> close_calls (cleanup_connection (\<lambda>h. False) ''198.51.100.7:SHA256:4'' proxy1)
       = [Channel 1, Channel 3, SSHClient 2]
   \<and> closed_handles (cleanup_connection (\<lambda>h. False) ''198.51.100.7:SHA256:4'' proxy1)
       = [Channel 1, Channel 3, SSHClient 2]
   \<and> active_connections (cleanup_connection (\<lambda>h. False) ''198.51.100.7:SHA256:4'' proxy1)
         ''198.51.100.7:SHA256:4''
       = active_connections proxy1 ''198.51.100.7:SHA256:4''
   \<and> active_connections proxy1 ''198.51.100.7:SHA256:4'' \<noteq> None
   \<and> proxy_log (cleanup_connection (\<lambda>h. False) ''198.51.100.7:SHA256:4'' proxy1)
       = [(ERROR, ''Error cleaning up connection 198.51.100.7:SHA256:4: '' @ repr_str ''Target''
                  @ '' object has no attribute '' @ repr_str ''get'')]"
  by (simp add: proxy1_def store_connection_def connection_id_def empty_blob_fingerprint_def
        SSHProxy_init_def cleanup_connection_def Let_def close_handle_def plog_def target0_def)

text \<open>
  When every \<^verbatim>\<open>send\<close> takes the whole frame, a relay direction that has not ended in
  an error has delivered exactly the bytes it read, in order.
\<close>

lemma relay_complete_sends:
  assumes "\<forall>ev \<in> set evs. case ev of Recv d k \<Rightarrow> length d \<le> k | _ \<Rightarrow> True"
    and "bytes_delivered s = bytes_read s"
    and "relay_data rid evs s = (x, s')" and "x \<noteq> ExitError"
  shows "bytes_delivered s' = bytes_read s'"
  using assms
proof (induction rid evs s rule: relay_data.induct)
  case (1 rid s)
  then show ?case by simp
next
  case (2 rid evs s)
  then show ?case by (auto simp: relay_terminated_def)
next
  case (3 rid evs s)
  then show ?case by simp
next
  case (4 rid e evs s)
  then show ?case by simp
next
  case (5 rid e evs s)
  then show ?case by simp
next
  case (6 rid d k evs s)
  then show ?case by (auto simp: relay_terminated_def split: if_splits)
next
  case (7 rid d e evs s)
  then show ?case by (auto simp: relay_terminated_def split: if_splits)
qed

text \<open>
  Claim C5 at a concrete run.  The source yields the frames 1 2 3 and 4 and then the end of
  the stream; the destination takes one byte of the first frame.  The return value of
  \<^verbatim>\<open>send\<close> is not read: bytes 2 and 3 are never written again, the next frame follows
  byte 1, and the direction ends cleanly, without any error.
\<close>

theorem partial_send_drops_bytes:
  "relay_data ''c2t'' [Recv [1, 2, 3] 1, Recv [4] 1, Recv [] 0] relay_state_init
     = (ExitClean,
        \<lparr>bytes_read = [1, 2, 3, 4], bytes_delivered = [1, 4],
         relay_log = [(DEBUG, ''Relay c2t terminated'')]\<rparr>)"
  by (simp add: relay_state_init_def relay_terminated_def)


end
